theory Spec2Isabelle
  imports Main
begin

section \<open>ci-operator: the entry point \<^verbatim>\<open>cmd/ci-operator/main.go\<close>\<close>

text \<open>
  A shallow embedding of \<^verbatim>\<open>cmd/ci-operator/main.go\<close>. Every call that leaves the
  process (cluster API, file system, the packages \<^verbatim>\<open>steps\<close> and \<^verbatim>\<open>api\<close>) is answered by an
  environment record; the functions return what the Go code returns together with the
  list of the calls they made, in order.
\<close>

subsection \<open>Routes and \<^verbatim>\<open>admittedRoute\<close>\<close>

text \<open>The string constants of the Kubernetes and OpenShift API packages.\<close>

definition RouteAdmitted :: string where
  "RouteAdmitted = ''Admitted''"

definition ConditionTrue :: string where
  "ConditionTrue = ''True''"

definition NamespaceTerminating :: string where
  "NamespaceTerminating = ''Terminating''"

record RouteIngressCondition =
  cond_Type :: string
  cond_Status :: string

record RouteIngress =
  ingress_Host :: string
  ingress_Conditions :: "RouteIngressCondition list"

text \<open>\<^verbatim>\<open>route.Status.Ingress\<close> is the only part of a route the program reads.\<close>

record Route =
  route_Status_Ingress :: "RouteIngress list"

text \<open>The inner loop of \<^verbatim>\<open>admittedRoute\<close>: does it reach its \<^verbatim>\<open>return\<close>?\<close>

fun admittedConditions :: "RouteIngressCondition list \<Rightarrow> bool" where
  "admittedConditions [] = False"
| "admittedConditions (condition # rest) =
     (if cond_Type condition = RouteAdmitted \<and> cond_Status condition = ConditionTrue
      then True
      else admittedConditions rest)"

text \<open>The outer loop of \<^verbatim>\<open>admittedRoute\<close>.\<close>

fun admittedIngresses :: "RouteIngress list \<Rightarrow> string \<times> bool" where
  "admittedIngresses [] = ('''', False)"
| "admittedIngresses (ingress # rest) =
     (if length (ingress_Host ingress) = 0 then admittedIngresses rest
      else if admittedConditions (ingress_Conditions ingress) then (ingress_Host ingress, True)
      else admittedIngresses rest)"

definition admittedRoute :: "Route \<Rightarrow> string \<times> bool" where
  "admittedRoute route = admittedIngresses (route_Status_Ingress route)"

text \<open>
  What the claim calls an admitted ingress: a non-empty host and some condition of type
  \<^verbatim>\<open>Admitted\<close> with status \<^verbatim>\<open>True\<close>.
\<close>

definition admitted_ingress :: "RouteIngress \<Rightarrow> bool" where
  "admitted_ingress ingress \<longleftrightarrow>
     ingress_Host ingress \<noteq> [] \<and>
     (\<exists>c \<in> set (ingress_Conditions ingress).
        cond_Type c = RouteAdmitted \<and> cond_Status c = ConditionTrue)"

subsection \<open>Errors\<close>

text \<open>
  The program tells three kinds of error apart: a status error of the API machinery with
  its reason (\<^verbatim>\<open>errors.IsAlreadyExists\<close> and \<^verbatim>\<open>errors.IsNotFound\<close> test the reason),
  the timeout of \<^verbatim>\<open>wait.PollImmediate\<close>, and any other error, which is its message.
\<close>

datatype StatusReason =
    StatusReasonAlreadyExists
  | StatusReasonNotFound
  | StatusReasonOther string

datatype error =
    StatusError StatusReason string
  | ErrWaitTimeout
  | Errorf string

fun Error :: "error \<Rightarrow> string" where
  "Error (StatusError reason message) = message"
| "Error ErrWaitTimeout = ''timed out waiting for the condition''"
| "Error (Errorf message) = message"

fun IsAlreadyExists :: "error \<Rightarrow> bool" where
  "IsAlreadyExists (StatusError reason message) = (reason = StatusReasonAlreadyExists)"
| "IsAlreadyExists ErrWaitTimeout = False"
| "IsAlreadyExists (Errorf message) = False"

fun IsNotFound :: "error \<Rightarrow> bool" where
  "IsNotFound (StatusError reason message) = (reason = StatusReasonNotFound)"
| "IsNotFound ErrWaitTimeout = False"
| "IsNotFound (Errorf message) = False"

text \<open>
  A Go function returns normally, with its \<^verbatim>\<open>error\<close> result (\<open>None\<close> is \<^verbatim>\<open>nil\<close>),
  or panics on a nil pointer.
\<close>

datatype outcome =
    Return "error option"
  | Panic

subsection \<open>API objects, options and the job specification\<close>

record Project =
  project_Status_Phase :: string

record ImageStream =
  is_UID :: string
  is_Status_PublicDockerImageRepository :: string
  is_Status_DockerImageRepository :: string

record OwnerReference =
  owner_APIVersion :: string
  owner_Kind :: string
  owner_Name :: string
  owner_UID :: string
  owner_Controller :: "bool option"

text \<open>
  Modelled from the spec: the type \<^verbatim>\<open>steps.JobSpec\<close>, whose declaration is not in the
  source tree. The spec gives it a stable content hash, the target namespace, the base
  namespace and an optional owner reference; \<^verbatim>\<open>main.go\<close> reads its field \<^verbatim>\<open>Job\<close> and
  calls \<^verbatim>\<open>Hash\<close>, \<^verbatim>\<open>Namespace\<close>, \<^verbatim>\<open>SetNamespace\<close>, \<^verbatim>\<open>SetBaseNamespace\<close> and
  \<^verbatim>\<open>SetOwner\<close>.
\<close>

record JobSpec =
  Job :: string
  js_hash :: string
  js_namespace :: string
  js_baseNamespace :: string
  js_owner :: "OwnerReference option"

definition Hash :: "JobSpec \<Rightarrow> string" where
  "Hash js = js_hash js"

definition Namespace :: "JobSpec \<Rightarrow> string" where
  "Namespace js = js_namespace js"

definition SetNamespace :: "JobSpec \<Rightarrow> string \<Rightarrow> JobSpec" where
  "SetNamespace js ns = js\<lparr>js_namespace := ns\<rparr>"

definition SetBaseNamespace :: "JobSpec \<Rightarrow> string \<Rightarrow> JobSpec" where
  "SetBaseNamespace js ns = js\<lparr>js_baseNamespace := ns\<rparr>"

definition SetOwner :: "JobSpec \<Rightarrow> OwnerReference \<Rightarrow> JobSpec" where
  "SetOwner js ref = js\<lparr>js_owner := Some ref\<rparr>"

text \<open>
  The fields of \<^verbatim>\<open>api.ReleaseBuildConfiguration\<close> that \<^verbatim>\<open>main.go\<close> reads.
\<close>

record ReleaseTagConfiguration =
  tag_Name :: string
  tag_NamePrefix :: string
  tag_Tag :: string

record ReleaseBuildConfiguration =
  cfg_ReleaseTagConfiguration :: "ReleaseTagConfiguration option"
  cfg_RpmBuildCommands :: string

datatype Config = Config string

type_synonym Step = string

text \<open>
  The struct \<^verbatim>\<open>options\<close>. \<^verbatim>\<open>buildConfig\<close> is a pointer that \<^verbatim>\<open>json.Unmarshal\<close> leaves
  nil for the input \<^verbatim>\<open>null\<close>; \<^verbatim>\<open>jobSpec\<close> is the pointer that \<^verbatim>\<open>Complete\<close> sets before
  \<^verbatim>\<open>Run\<close> is called, so it is a value here. \<^verbatim>\<open>idleCleanupDuration\<close> is a
  \<^verbatim>\<open>time.Duration\<close>, a number of nanoseconds.
\<close>

record options =
  rawBuildConfig :: string
  dry :: bool
  writeParams :: string
  namespace :: string
  baseNamespace :: string
  idleCleanupDuration :: int
  buildConfig :: "ReleaseBuildConfiguration option"
  jobSpec :: JobSpec
  clusterConfig :: "Config option"

definition Second :: int where
  "Second = 1000000000"

definition Minute :: int where
  "Minute = 60 * Second"

subsection \<open>The environment\<close>

text \<open>
  What the process gets from outside, as the answers to its calls: the cluster control
  plane, the packages \<^verbatim>\<open>steps\<close> and \<^verbatim>\<open>api\<close> of this repository (not in the source
  tree) and the Go library. The calls made in a loop are answered by attempt number.
  A call of a typed client answers with an object or an error; \<^verbatim>\<open>ImageStreams.Get\<close>
  answers with both results, since the program drops the error and tests the pointer.
  \<^verbatim>\<open>fmt_q\<close> is the verb \<^verbatim>\<open>%q\<close> of \<^verbatim>\<open>fmt.Sprintf\<close> on a string. The last three
  fields are the constants of package \<^verbatim>\<open>steps\<close> that \<^verbatim>\<open>main.go\<close> names.
\<close>

record world =
  ResolveSpecFromEnv :: "error + JobSpec"
  json_Unmarshal :: "string \<Rightarrow> error + ReleaseBuildConfiguration option"
  rest_InClusterConfig :: "error + Config"
  clientcmd_Load :: "error option"
  clientcmd_ClientConfig :: "error + Config"
  versioned_NewForConfig :: "error option"
  ProjectRequests_Create :: "nat \<Rightarrow> error + Project"
  Projects_Get :: "nat \<Rightarrow> error + Project"
  coreclientset_NewForConfig :: "error option"
  rbacclientset_NewForConfig :: "error option"
  ServiceAccounts_Create :: "error option"
  RoleBindings_Create :: "error option"
  Pods_Create :: "error option"
  imageclientset_NewForConfig :: "error option"
  ImageStreams_Create :: "error + ImageStream"
  ImageStreams_Get :: "ImageStream option \<times> error option"
  steps_FromConfig :: "ReleaseBuildConfiguration option \<Rightarrow> JobSpec \<Rightarrow> error + Step list"
  steps_Run :: "Step list \<Rightarrow> bool \<Rightarrow> error option"
  routeclientset_NewForConfig :: "error option"
  Routes_Get :: "nat \<Rightarrow> error + Route"
  ioutil_WriteFile :: "error option"
  fmt_q :: "string \<Rightarrow> string"
  PipelineImageStream :: string
  StableImageStream :: string
  RPMRepoName :: string

subsection \<open>The calls a run makes\<close>

text \<open>
  Every call with an effect outside the process, and the one mutation of the job
  specification in \<^verbatim>\<open>Run\<close>, in the order in which the program makes them. A log line is
  its format string with its string arguments (a duration argument is left out).
\<close>

datatype event =
    Log string "string list"
  | Call_ProjectRequests_Create string
  | Call_Projects_Get string
  | Call_Sleep int
  | Call_ServiceAccounts_Create string string
  | Call_RoleBindings_Create string string
  | Call_Pods_Create string string
  | Call_ImageStreams_Create string string
  | Call_ImageStreams_Get string string
  | Call_SetOwner OwnerReference
  | Call_FromConfig "ReleaseBuildConfiguration option" JobSpec
  | Call_StepsRun "Step list" bool
  | Call_PollTick int
  | Call_Routes_Get string string
  | Call_WriteFile string string nat

text \<open>The calls that create an object on the cluster, and the calls that reach it at all.\<close>

fun cluster_create :: "event \<Rightarrow> bool" where
  "cluster_create (Call_ProjectRequests_Create ns) = True"
| "cluster_create (Call_ServiceAccounts_Create ns n) = True"
| "cluster_create (Call_RoleBindings_Create ns n) = True"
| "cluster_create (Call_Pods_Create ns n) = True"
| "cluster_create (Call_ImageStreams_Create ns n) = True"
| "cluster_create e = False"

fun cluster_call :: "event \<Rightarrow> bool" where
  "cluster_call (Call_Projects_Get ns) = True"
| "cluster_call (Call_ImageStreams_Get ns n) = True"
| "cluster_call (Call_Routes_Get ns n) = True"
| "cluster_call e = cluster_create e"

fun file_write :: "event \<Rightarrow> bool" where
  "file_write (Call_WriteFile path content mode) = True"
| "file_write e = False"

text \<open>The calls that hand the job specification to the steps, or run them.\<close>

fun step_event :: "event \<Rightarrow> bool" where
  "step_event (Call_FromConfig cfg js) = True"
| "step_event (Call_StepsRun buildSteps d) = True"
| "step_event e = False"

fun owner_event :: "event \<Rightarrow> bool" where
  "owner_event (Call_SetOwner ref) = True"
| "owner_event e = False"

text \<open>
  The calls of a run that stays inside the process: log lines, and the calls of package
  \<^verbatim>\<open>steps\<close> with the dry-run flag set.
\<close>

fun local_event :: "event \<Rightarrow> bool" where
  "local_event (Log f args) = True"
| "local_event (Call_FromConfig cfg js) = True"
| "local_event (Call_StepsRun buildSteps d) = d"
| "local_event e = False"

subsection \<open>The string functions of the Go library that the program calls\<close>

text \<open>
  \<^verbatim>\<open>strings.Replace(s, old, new, -1)\<close>: every non-overlapping occurrence of \<open>old\<close>,
  found from the left, is replaced by \<open>new\<close>. (With an empty \<open>old\<close> the library inserts
  \<open>new\<close> before every character and at the end; the program never passes one.)
\<close>

function strings_Replace_all :: "string \<Rightarrow> string \<Rightarrow> string \<Rightarrow> string" where
  "strings_Replace_all [] old new = (if old = [] then new else [])"
| "strings_Replace_all (c # s) old new =
     (if old = [] then new @ c # strings_Replace_all s old new
      else if take (length old) (c # s) = old
        then new @ strings_Replace_all (drop (length old) (c # s)) old new
      else c # strings_Replace_all s old new)"
  by pat_completeness auto
termination
  by (relation "measure (\<lambda>(s, old, new). length s)") auto

text \<open>\<^verbatim>\<open>strings.Join\<close>.\<close>

fun strings_Join :: "string list \<Rightarrow> string \<Rightarrow> string" where
  "strings_Join [] sep = []"
| "strings_Join [a] sep = a"
| "strings_Join (a # b # rest) sep = a @ sep @ strings_Join (b # rest) sep"

text \<open>
  \<^verbatim>\<open>strings.SplitN(s, "/", 2)[0]\<close>: what comes before the first slash, all of \<open>s\<close>
  when it has none.
\<close>

definition SplitN2_first :: "string \<Rightarrow> string" where
  "SplitN2_first s = takeWhile (\<lambda>c. c \<noteq> CHR ''/'') s"

definition newline :: string where
  "newline = [CHR 0x0A]"

definition dquote :: string where
  "dquote = [CHR 0x22]"

definition squote :: string where
  "squote = [CHR 0x27]"

definition backslash :: string where
  "backslash = [CHR 0x5C]"

subsection \<open>\<^verbatim>\<open>Validate\<close>, \<^verbatim>\<open>Complete\<close> and \<^verbatim>\<open>loadClusterConfig\<close>\<close>


definition loadClusterConfig :: "world \<Rightarrow> error + Config" where
  "loadClusterConfig w =
     (case rest_InClusterConfig w of
        Inr cc \<Rightarrow> Inr cc
      | Inl err0 \<Rightarrow>
          (case clientcmd_Load w of
             Some err \<Rightarrow> Inl (Errorf (''could not load credentials from config: '' @ Error err))
           | None \<Rightarrow>
               (case clientcmd_ClientConfig w of
                  Inl err \<Rightarrow> Inl (Errorf (''could not load client configuration: '' @ Error err))
                | Inr cc \<Rightarrow> Inr cc)))"

text \<open>
  \<^verbatim>\<open>Complete\<close> returns its error and the options as it leaves them; it makes no call to
  the cluster.
\<close>

definition Complete :: "world \<Rightarrow> options \<Rightarrow> error option \<times> options" where
  "Complete w opt =
     (case ResolveSpecFromEnv w of
        Inl err \<Rightarrow> (Some (Errorf (''failed to resolve job spec: '' @ Error err)), opt)
      | Inr js \<Rightarrow>
          (let opt1 = (if length (namespace opt) = 0 then opt\<lparr>namespace := ''ci-op-{id}''\<rparr> else opt);
               opt2 = opt1\<lparr>namespace := strings_Replace_all (namespace opt1) ''{id}'' (Hash js)\<rparr>;
               js1 = SetNamespace js (namespace opt2);
               js2 = SetBaseNamespace js1 (baseNamespace opt2);
               opt3 = opt2\<lparr>jobSpec := js2\<rparr>
           in case json_Unmarshal w (rawBuildConfig opt3) of
                Inl err \<Rightarrow> (Some (Errorf (''malformed build configuration: '' @ Error err)), opt3)
              | Inr cfg \<Rightarrow>
                  (let opt4 = opt3\<lparr>buildConfig := cfg\<rparr>
                   in case loadClusterConfig w of
                        Inl err \<Rightarrow>
                          (Some (Errorf (''failed to load cluster config: '' @ Error err)), opt4)
                      | Inr cc \<Rightarrow> (None, opt4\<lparr>clusterConfig := Some cc\<rparr>))))"

subsection \<open>\<^verbatim>\<open>Run\<close>: the namespace\<close>

text \<open>
  One pass through the body of the loop of \<^verbatim>\<open>Run\<close> that creates the namespace, lines 131
  to 153, with the way the pass ends: \<^verbatim>\<open>break\<close>, \<^verbatim>\<open>continue\<close> or \<^verbatim>\<open>return\<close> of an
  error. \<^verbatim>\<open>phaseCheck\<close> is the end of the body, lines 148 to 153, which both the created
  and the fetched project reach.
\<close>

datatype loop_exit = Break | Continue | ReturnErr error

definition phaseCheck :: "Project \<Rightarrow> event list \<Rightarrow> loop_exit \<times> event list" where
  "phaseCheck project tr =
     (if project_Status_Phase project = NamespaceTerminating
      then (Continue,
            tr @ [Log ''Waiting for namespace to finish terminating before creating another'' [],
                  Call_Sleep (3 * Second)])
      else (Break, tr))"

definition namespaceAttempt :: "world \<Rightarrow> options \<Rightarrow> nat \<Rightarrow> loop_exit \<times> event list" where
  "namespaceAttempt w opt i =
     (case ProjectRequests_Create w i of
        Inr project \<Rightarrow> phaseCheck project [Call_ProjectRequests_Create (namespace opt)]
      | Inl err \<Rightarrow>
          if \<not> IsAlreadyExists err
          then (ReturnErr (Errorf (''could not set up namespace for test: '' @ Error err)),
                [Call_ProjectRequests_Create (namespace opt)])
          else
            (case Projects_Get w i of
               Inl err' \<Rightarrow>
                 if IsNotFound err'
                 then (Continue,
                       [Call_ProjectRequests_Create (namespace opt), Call_Projects_Get (namespace opt)])
                 else (ReturnErr (Errorf (''cannot retrieve test namespace: '' @ Error err')),
                       [Call_ProjectRequests_Create (namespace opt), Call_Projects_Get (namespace opt)])
             | Inr project \<Rightarrow>
                 phaseCheck project
                   [Call_ProjectRequests_Create (namespace opt), Call_Projects_Get (namespace opt)]))"

text \<open>
  The loop \<^verbatim>\<open>for { ... }\<close> itself, from pass \<open>i\<close> on. It has no bound in the source, so the
  result is \<open>None\<close> when it never leaves.
\<close>

partial_function (option) namespaceLoop ::
  "world \<Rightarrow> options \<Rightarrow> nat \<Rightarrow> (error option \<times> event list) option" where
  "namespaceLoop w opt i =
     (case namespaceAttempt w opt i of
        (ReturnErr err, tr) \<Rightarrow> Some (Some err, tr)
      | (Break, tr) \<Rightarrow> Some (None, tr)
      | (Continue, tr) \<Rightarrow>
          Option.bind (namespaceLoop w opt (Suc i)) (\<lambda>(r, tr'). Some (r, tr @ tr')))"

subsection \<open>\<^verbatim>\<open>createNamespaceCleanupPod\<close>\<close>

text \<open>The test \<^verbatim>\<open>err != nil && !errors.IsAlreadyExists(err)\<close>.\<close>

definition notAlreadyExists :: "error option \<Rightarrow> error option" where
  "notAlreadyExists r =
     (case r of
        None \<Rightarrow> None
      | Some err \<Rightarrow> if \<not> IsAlreadyExists err then Some err else None)"

definition createNamespaceCleanupPod :: "world \<Rightarrow> options \<Rightarrow> error option \<times> event list" where
  "createNamespaceCleanupPod w opt =
     (let tr0 = [Log ''Namespace will be deleted after %s of idle time'' []]
      in case coreclientset_NewForConfig w of
           Some err \<Rightarrow>
             (Some (Errorf (''could not get image client for cluster config: '' @ Error err)), tr0)
         | None \<Rightarrow>
        (case rbacclientset_NewForConfig w of
           Some err \<Rightarrow>
             (Some (Errorf (''could not get image client for cluster config: '' @ Error err)), tr0)
         | None \<Rightarrow>
        (let tr1 = tr0 @ [Call_ServiceAccounts_Create (namespace opt) ''cleanup'']
         in case notAlreadyExists (ServiceAccounts_Create w) of
              Some err \<Rightarrow>
                (Some (Errorf (''could not create service account for cleanup: '' @ Error err)), tr1)
            | None \<Rightarrow>
        (let tr2 = tr1 @ [Call_RoleBindings_Create (namespace opt) ''cleanup'']
         in case notAlreadyExists (RoleBindings_Create w) of
              Some err \<Rightarrow>
                (Some (Errorf (''could not create role binding for cleanup: '' @ Error err)), tr2)
            | None \<Rightarrow>
        (let tr3 = tr2 @ [Call_Pods_Create (namespace opt) ''cleanup-when-idle'']
         in case notAlreadyExists (Pods_Create w) of
              Some err \<Rightarrow>
                (Some (Errorf (''could not create pod for cleanup: '' @ Error err)), tr3)
            | None \<Rightarrow> (None, tr3))))))"

subsection \<open>\<^verbatim>\<open>Run\<close>: the image stream and the owner reference\<close>

text \<open>
  Lines 180 to 189: with an image stream in hand the job specification gets its owner.
  The result is the image stream pointer and the job specification afterwards.
\<close>

definition ownerReference :: "world \<Rightarrow> ImageStream \<Rightarrow> OwnerReference" where
  "ownerReference w stream =
     \<lparr>owner_APIVersion = ''image.openshift.io/v1'',
      owner_Kind = ''ImageStream'',
      owner_Name = PipelineImageStream w,
      owner_UID = is_UID stream,
      owner_Controller = Some True\<rparr>"

definition attachOwner ::
  "world \<Rightarrow> options \<Rightarrow> ImageStream option \<Rightarrow> event list \<Rightarrow>
   (error + ImageStream option \<times> JobSpec) \<times> event list" where
  "attachOwner w opt is tr =
     (case is of
        None \<Rightarrow> (Inr (None, jobSpec opt), tr)
      | Some stream \<Rightarrow>
          (Inr (Some stream, SetOwner (jobSpec opt) (ownerReference w stream)),
           tr @ [Call_SetOwner (ownerReference w stream)]))"

text \<open>Lines 162 to 189.\<close>

definition createImageStream ::
  "world \<Rightarrow> options \<Rightarrow> (error + ImageStream option \<times> JobSpec) \<times> event list" where
  "createImageStream w opt =
     (case imageclientset_NewForConfig w of
        Some err \<Rightarrow>
          (Inl (Errorf (''could not get image client for cluster config: '' @ Error err)), [])
      | None \<Rightarrow>
          (let tr = [Call_ImageStreams_Create (Namespace (jobSpec opt)) (PipelineImageStream w)]
           in case ImageStreams_Create w of
                Inr stream \<Rightarrow> attachOwner w opt (Some stream) tr
              | Inl err \<Rightarrow>
                  if \<not> IsAlreadyExists err
                  then (Inl (Errorf (''could not set up pipeline imagestream for test: '' @ Error err)),
                        tr)
                  else attachOwner w opt (fst (ImageStreams_Get w))
                         (tr @ [Call_ImageStreams_Get (Namespace (jobSpec opt)) (PipelineImageStream w)])))"

text \<open>The block \<^verbatim>\<open>if !opt.dry { ... }\<close> of \<^verbatim>\<open>Run\<close>, lines 123 to 190.\<close>

definition provision ::
  "world \<Rightarrow> options \<Rightarrow> ((error + ImageStream option \<times> JobSpec) \<times> event list) option" where
  "provision w opt =
     (case versioned_NewForConfig w of
        Some err \<Rightarrow>
          Some (Inl (Errorf (''could not get project client for cluster config: '' @ Error err)), [])
      | None \<Rightarrow>
          Option.bind (namespaceLoop w opt 0) (\<lambda>(r, tr).
            let tr1 = Log ''Creating namespace %s'' [namespace opt] # tr
            in case r of
                 Some err \<Rightarrow> Some (Inl err, tr1)
               | None \<Rightarrow>
                   (case (if idleCleanupDuration opt > 0 then createNamespaceCleanupPod w opt
                          else (None, [])) of
                      (Some err, tr2) \<Rightarrow> Some (Inl err, tr1 @ tr2)
                    | (None, tr2) \<Rightarrow>
                        (case createImageStream w opt of
                           (r3, tr3) \<Rightarrow> Some (r3, tr1 @ tr2 @ tr3)))))"

subsection \<open>\<^verbatim>\<open>wait.PollImmediate\<close>\<close>

text \<open>
  \<^verbatim>\<open>wait.PollImmediate(interval, timeout, condition)\<close> of the Kubernetes library runs the
  condition at once and then once per interval until the timeout, and stops at the first
  error or the first \<^verbatim>\<open>true\<close>; when the time is up it returns \<^verbatim>\<open>ErrWaitTimeout\<close>. Time
  is a logical clock here: the condition takes no time, so that attempt \<open>k\<close> is made
  \<open>k\<close> intervals after the start and the last one at the timeout. The condition of the
  program is a closure that appends to the parameters, so it takes and returns them,
  with the calls made so far.
\<close>

type_synonym poll_state = "string list \<times> event list"

type_synonym ConditionFunc = "nat \<Rightarrow> poll_state \<Rightarrow> (bool \<times> error option) \<times> poll_state"

fun pollLoop :: "nat \<Rightarrow> nat \<Rightarrow> int \<Rightarrow> ConditionFunc \<Rightarrow> poll_state \<Rightarrow> error option \<times> poll_state" where
  "pollLoop 0 k interval condition s = (Some ErrWaitTimeout, s)"
| "pollLoop (Suc n) k interval condition (params, tr) =
     (case condition k (params, tr @ [Call_PollTick interval]) of
        ((done, Some err), s') \<Rightarrow> (Some err, s')
      | ((done, None), s') \<Rightarrow>
          if done then (None, s') else pollLoop n (Suc k) interval condition s')"

definition PollImmediate ::
  "int \<Rightarrow> int \<Rightarrow> ConditionFunc \<Rightarrow> poll_state \<Rightarrow> error option \<times> poll_state" where
  "PollImmediate interval timeout condition s =
     (case condition 0 s of
        ((done, Some err), s') \<Rightarrow> (Some err, s')
      | ((done, None), s') \<Rightarrow>
          if done then (None, s')
          else pollLoop (nat (timeout div interval)) 1 interval condition s')"

subsection \<open>\<^verbatim>\<open>writeParameters\<close>\<close>

text \<open>The closure passed to \<^verbatim>\<open>wait.PollImmediate\<close>, lines 277 to 287.\<close>

definition routeCondition :: "world \<Rightarrow> options \<Rightarrow> ConditionFunc" where
  "routeCondition w opt k s =
     (case s of (params, tr) \<Rightarrow>
        (let tr' = tr @ [Call_Routes_Get (namespace opt) (RPMRepoName w)]
         in case Routes_Get w k of
              Inl err \<Rightarrow> ((False, Some err), (params, tr'))
            | Inr route \<Rightarrow>
                (case admittedRoute route of (host, ok) \<Rightarrow>
                   if ok then ((True, None), (params @ [''RPM_REPO='' @ fmt_q w host], tr'))
                   else ((False, None), (params, tr')))))"

text \<open>Lines 252 to 266: the line \<^verbatim>\<open>IMAGE_FORMAT\<close>.\<close>

definition imageFormat ::
  "world \<Rightarrow> options \<Rightarrow> ReleaseTagConfiguration \<Rightarrow> ImageStream option \<Rightarrow> string" where
  "imageFormat w opt tagConfig is =
     (let registry =
            (case is of
               None \<Rightarrow> ''REGISTRY''
             | Some stream \<Rightarrow>
                 if length (is_Status_PublicDockerImageRepository stream) > 0
                 then SplitN2_first (is_Status_PublicDockerImageRepository stream)
                 else if length (is_Status_DockerImageRepository stream) > 0
                 then SplitN2_first (is_Status_DockerImageRepository stream)
                 else ''REGISTRY'');
          format =
            (if length (tag_Name tagConfig) > 0
             then registry @ ''/'' @ namespace opt @ ''/'' @
                  (tag_NamePrefix tagConfig @ StableImageStream w) @ '':'' @ ''${component}''
             else registry @ ''/'' @ namespace opt @ ''/'' @
                  (tag_NamePrefix tagConfig @ ''${component}'') @ '':'' @ tag_Tag tagConfig)
      in ''IMAGE_FORMAT='' @ squote @
         strings_Replace_all
           (strings_Replace_all format backslash (backslash @ backslash))
           squote (backslash @ squote) @
         squote)"

text \<open>Lines 293 to 301: the parameters are printed, or written to the file with mode \<^verbatim>\<open>0640\<close> (416).\<close>

definition emitParameters ::
  "world \<Rightarrow> options \<Rightarrow> string \<Rightarrow> poll_state \<Rightarrow> outcome \<times> event list" where
  "emitParameters w opt path s =
     (case s of (params, tr) \<Rightarrow>
        if dry opt
        then (Return None, tr @ [Log (newline @ ''%s'') [strings_Join params newline]])
        else
          (let params' = params @ [''''];
               tr' = tr @ [Call_WriteFile path (strings_Join params' newline) 416]
           in case ioutil_WriteFile w of
                Some err \<Rightarrow> (Return (Some err), tr')
              | None \<Rightarrow> (Return None, tr')))"

text \<open>
  Lines 245 to 291: the parameters are computed. The result is the list \<^verbatim>\<open>params\<close>, or
  the way the function ends without reaching line 293.
\<close>

definition resolveParameters ::
  "world \<Rightarrow> options \<Rightarrow> string \<Rightarrow> ImageStream option \<Rightarrow> (outcome + string list) \<times> event list" where
  "resolveParameters w opt path is =
     (let tr0 = [Log ''Writing parameters to %s'' [path]];
          params0 = [''JOB_NAME='' @ fmt_q w (Job (jobSpec opt)),
                     ''NAMESPACE='' @ fmt_q w (namespace opt)]
      in case buildConfig opt of
           None \<Rightarrow> (Inl Panic, tr0)
         | Some cfg \<Rightarrow>
             (let params1 =
                    (case cfg_ReleaseTagConfiguration cfg of
                       None \<Rightarrow> params0
                     | Some tagConfig \<Rightarrow> params0 @ [imageFormat w opt tagConfig is])
              in if length (cfg_RpmBuildCommands cfg) > 0
                 then
                   if dry opt
                   then (Inr (params1 @ [''RPM_REPO='' @ dquote @ dquote]), tr0)
                   else
                     (case routeclientset_NewForConfig w of
                        Some err \<Rightarrow>
                          (Inl (Return (Some (Errorf
                             (''could not get route client for cluster config: '' @ Error err)))),
                           tr0)
                      | None \<Rightarrow>
                          (case PollImmediate Second Minute (routeCondition w opt) (params1, tr0) of
                             (Some err, (params2, tr2)) \<Rightarrow> (Inl (Return (Some err)), tr2)
                           | (None, (params2, tr2)) \<Rightarrow> (Inr params2, tr2)))
                 else (Inr params1, tr0)))"

definition writeParameters ::
  "world \<Rightarrow> options \<Rightarrow> string \<Rightarrow> ImageStream option \<Rightarrow> outcome \<times> event list" where
  "writeParameters w opt path is =
     (case resolveParameters w opt path is of
        (Inl ended, tr) \<Rightarrow> (ended, tr)
      | (Inr params, tr) \<Rightarrow> emitParameters w opt path (params, tr))"

subsection \<open>\<^verbatim>\<open>Run\<close>\<close>

text \<open>Lines 192 to 207: the steps are built and run, and the parameters written.\<close>

definition buildAndRun ::
  "world \<Rightarrow> options \<Rightarrow> ImageStream option \<Rightarrow> outcome \<times> event list" where
  "buildAndRun w opt is =
     (let tr1 = [Call_FromConfig (buildConfig opt) (jobSpec opt)]
      in case steps_FromConfig w (buildConfig opt) (jobSpec opt) of
           Inl err \<Rightarrow>
             (Return (Some (Errorf (''failed to generate steps from config: '' @ Error err))), tr1)
         | Inr buildSteps \<Rightarrow>
             (let tr2 = tr1 @ [Call_StepsRun buildSteps (dry opt)]
              in case steps_Run w buildSteps (dry opt) of
                   Some err \<Rightarrow> (Return (Some err), tr2)
                 | None \<Rightarrow>
                     if length (writeParams opt) > 0
                     then
                       (case writeParameters w opt (writeParams opt) is of
                          (Return (Some err), tr3) \<Rightarrow>
                            (Return (Some (Errorf (''failed to write parameters: '' @ Error err))),
                             tr2 @ tr3)
                        | (Return None, tr3) \<Rightarrow> (Return None, tr2 @ tr3)
                        | (Panic, tr3) \<Rightarrow> (Panic, tr2 @ tr3))
                     else (Return None, tr2)))"

text \<open>
  \<^verbatim>\<open>Run\<close> returns, when it returns, its outcome, the calls it made and the job
  specification as it leaves it. The deferred function logs the running time last, on
  every path.
\<close>

definition Run :: "world \<Rightarrow> options \<Rightarrow> (outcome \<times> event list \<times> JobSpec) option" where
  "Run w opt =
     map_option (\<lambda>(r, tr, js). (r, tr @ [Log ''Ran for %s'' []], js))
       (if \<not> dry opt
        then
          Option.bind (provision w opt) (\<lambda>(r, tr).
            case r of
              Inl err \<Rightarrow> Some (Return (Some err), tr, jobSpec opt)
            | Inr (is, js) \<Rightarrow>
                (case buildAndRun w (opt\<lparr>jobSpec := js\<rparr>) is of
                   (r', tr') \<Rightarrow> Some (r', tr @ tr', js)))
        else
          (case buildAndRun w opt None of
             (r', tr') \<Rightarrow> Some (r', tr', jobSpec opt)))"


subsection \<open>The script of the pod \<^verbatim>\<open>cleanup-when-idle\<close>\<close>

text \<open>
  The pod that \<^verbatim>\<open>createNamespaceCleanupPod\<close> creates runs a bash script, lines 363 to
  392. The script lists the pods once per pass of its loop; what it sees of a pod is its
  name, its restart policy and its phase.
\<close>

record Pod =
  pod_name :: string
  pod_restartPolicy :: string
  pod_phase :: string

text \<open>The condition of the template of \<^verbatim>\<open>oc get pods\<close>.\<close>

definition active :: "Pod \<Rightarrow> bool" where
  "active p \<longleftrightarrow>
     \<not> (pod_name p = ''cleanup-when-idle'') \<and>
     pod_restartPolicy p = ''Never'' \<and>
     (pod_phase p = ''Pending'' \<or> pod_phase p = ''Running'' \<or> pod_phase p = ''Unknown'')"






text \<open>
  What happens to the script in one pass: the listing succeeds, or \<^verbatim>\<open>oc get pods\<close>
  fails, or the signal \<^verbatim>\<open>TERM\<close> arrives. Under \<^verbatim>\<open>set -e\<close> a failed listing ends the
  script, and the trap on \<^verbatim>\<open>TERM\<close> ends it with status 1. The trap on \<^verbatim>\<open>EXIT\<close> runs
  \<^verbatim>\<open>oc delete project\<close> on every exit, so the namespace is deleted exactly when the
  script has exited.
\<close>

datatype observation = Listed "Pod list" | ListFailed | SigTerm





text \<open>A pass in which the listing succeeds and shows no active pod.\<close>

fun idle :: "observation \<Rightarrow> bool" where
  "idle (Listed pods) = (\<forall>p \<in> set pods. \<not> active p)"
| "idle ListFailed = False"
| "idle SigTerm = False"


subsection \<open>Notions used to state the properties\<close>

text \<open>
  The parameters of a dry run with configuration \<open>cfg\<close>: the two that are always there,
  the image format when the configuration has a tag configuration, and the empty
  \<^verbatim>\<open>RPM_REPO\<close> when it has RPM build commands.
\<close>

definition dry_params ::
  "world \<Rightarrow> options \<Rightarrow> ReleaseBuildConfiguration \<Rightarrow> ImageStream option \<Rightarrow> string list" where
  "dry_params w opt cfg is =
     [''JOB_NAME='' @ fmt_q w (Job (jobSpec opt)), ''NAMESPACE='' @ fmt_q w (namespace opt)] @
     (case cfg_ReleaseTagConfiguration cfg of
        None \<Rightarrow> []
      | Some tagConfig \<Rightarrow> [imageFormat w opt tagConfig is]) @
     (if cfg_RpmBuildCommands cfg = [] then [] else [''RPM_REPO='' @ dquote @ dquote])"






subsection \<open>A run to evaluate\<close>

text \<open>
  An environment in which every call succeeds, the namespace is new, and the route of the
  RPM repository is admitted at the eleventh attempt, ten seconds after the first; and
  the options of a run without \<^verbatim>\<open>--namespace\<close>, as \<^verbatim>\<open>bindOptions\<close> leaves them apart from
  \<^verbatim>\<open>--dry-run=false\<close>, \<^verbatim>\<open>--write-params\<close> and \<^verbatim>\<open>--delete-when-idle\<close>.
\<close>

definition example_jobSpec :: JobSpec where
  "example_jobSpec =
     \<lparr>Job = ''pull-ci-origin-unit'', js_hash = ''5b2f7ad1'', js_namespace = '''',
      js_baseNamespace = '''', js_owner = None\<rparr>"

definition example_config :: ReleaseBuildConfiguration where
  "example_config =
     \<lparr>cfg_ReleaseTagConfiguration =
        Some \<lparr>tag_Name = ''origin-v3.10'', tag_NamePrefix = '''', tag_Tag = ''''\<rparr>,
      cfg_RpmBuildCommands = ''make build-rpms''\<rparr>"

definition example_stream :: ImageStream where
  "example_stream =
     \<lparr>is_UID = ''0f6c1c2e'',
      is_Status_PublicDockerImageRepository = ''registry.example.com/ci-op-5b2f7ad1/pipeline'',
      is_Status_DockerImageRepository = ''172.30.1.1:5000/ci-op-5b2f7ad1/pipeline''\<rparr>"

definition example_route :: "nat \<Rightarrow> Route" where
  "example_route k =
     \<lparr>route_Status_Ingress =
        (if k < 10 then []
         else [\<lparr>ingress_Host = ''rpm-repo.example.com'',
                ingress_Conditions = [\<lparr>cond_Type = ''Admitted'', cond_Status = ''True''\<rparr>]\<rparr>])\<rparr>"

definition example_world :: world where
  "example_world =
     \<lparr>ResolveSpecFromEnv = Inr example_jobSpec,
      json_Unmarshal = (\<lambda>raw. Inr (Some example_config)),
      rest_InClusterConfig = Inr (Config ''in-cluster''),
      clientcmd_Load = None,
      clientcmd_ClientConfig = Inr (Config ''kubeconfig''),
      versioned_NewForConfig = None,
      ProjectRequests_Create = (\<lambda>i. Inr \<lparr>project_Status_Phase = ''Active''\<rparr>),
      Projects_Get = (\<lambda>i. Inr \<lparr>project_Status_Phase = ''Active''\<rparr>),
      coreclientset_NewForConfig = None,
      rbacclientset_NewForConfig = None,
      ServiceAccounts_Create = None,
      RoleBindings_Create = None,
      Pods_Create = None,
      imageclientset_NewForConfig = None,
      ImageStreams_Create = Inr example_stream,
      ImageStreams_Get = (Some example_stream, None),
      steps_FromConfig = (\<lambda>cfg js. Inr [''src'', ''rpms'']),
      steps_Run = (\<lambda>buildSteps dry. None),
      routeclientset_NewForConfig = None,
      Routes_Get = (\<lambda>k. Inr (example_route k)),
      ioutil_WriteFile = None,
      fmt_q = (\<lambda>s. dquote @ s @ dquote),
      PipelineImageStream = ''pipeline'',
      StableImageStream = ''stable'',
      RPMRepoName = ''rpm-repo''\<rparr>"

definition example_options :: options where
  "example_options =
     \<lparr>rawBuildConfig = ''{}'',
      dry = False,
      writeParams = ''/tmp/params'',
      namespace = '''',
      baseNamespace = ''stable'',
      idleCleanupDuration = 600 * Second,
      buildConfig = None,
      jobSpec = \<lparr>Job = '''', js_hash = '''', js_namespace = '''', js_baseNamespace = '''',
                 js_owner = None\<rparr>,
      clusterConfig = None\<rparr>"

text \<open>The options of that run as \<^verbatim>\<open>Complete\<close> leaves them.\<close>

definition run_options :: options where
  "run_options =
     \<lparr>rawBuildConfig = ''{}'',
      dry = False,
      writeParams = ''/tmp/params'',
      namespace = ''ci-op-5b2f7ad1'',
      baseNamespace = ''stable'',
      idleCleanupDuration = 600 * Second,
      buildConfig = Some example_config,
      jobSpec = \<lparr>Job = ''pull-ci-origin-unit'', js_hash = ''5b2f7ad1'',
                 js_namespace = ''ci-op-5b2f7ad1'', js_baseNamespace = ''stable'',
                 js_owner = None\<rparr>,
      clusterConfig = Some (Config ''in-cluster'')\<rparr>"

text \<open>
  A cluster on which the namespace exists already and is reported as \<^verbatim>\<open>Terminating\<close> in
  the first \<open>n\<close> passes of the loop, and one on which it is reported so for ever.
\<close>

definition terminating_world :: "nat \<Rightarrow> world" where
  "terminating_world n =
     example_world
       \<lparr>ProjectRequests_Create :=
          (\<lambda>i. Inl (StatusError StatusReasonAlreadyExists ''project already exists'')),
        Projects_Get :=
          (\<lambda>i. Inr \<lparr>project_Status_Phase = (if i < n then ''Terminating'' else ''Active'')\<rparr>)\<rparr>"




section \<open>Properties\<close>

subsection \<open>\<^verbatim>\<open>admittedRoute\<close>\<close>

lemma admittedConditions_iff:
  "admittedConditions cs \<longleftrightarrow>
     (\<exists>c \<in> set cs. cond_Type c = RouteAdmitted \<and> cond_Status c = ConditionTrue)"
  by (induction cs) auto

lemma admittedIngresses_find:
  "admittedIngresses is =
     (case find admitted_ingress is of
        Some ingress \<Rightarrow> (ingress_Host ingress, True)
      | None \<Rightarrow> ('''', False))"
  by (induction "is") (auto simp: admitted_ingress_def admittedConditions_iff)

lemma admittedIngresses_snd:
  "snd (admittedIngresses is) \<longleftrightarrow> (\<exists>i \<in> set is. admitted_ingress i)"
  by (induction "is") (auto simp: admitted_ingress_def admittedConditions_iff)

lemma admittedIngresses_None:
  "\<forall>i \<in> set is. \<not> admitted_ingress i \<Longrightarrow> admittedIngresses is = ('''', False)"
  by (induction "is") (auto simp: admitted_ingress_def admittedConditions_iff)

lemma admittedIngresses_True_iff:
  "admittedIngresses is = (host, True) \<longleftrightarrow>
     (\<exists>k < length is. admitted_ingress (is ! k) \<and> (\<forall>j < k. \<not> admitted_ingress (is ! j)) \<and>
        host = ingress_Host (is ! k))"
proof -
  have "admittedIngresses is = (host, True) \<longleftrightarrow>
      (\<exists>i. find admitted_ingress is = Some i \<and> host = ingress_Host i)"
    by (auto simp: admittedIngresses_find split: option.splits)
  also have "\<dots> \<longleftrightarrow> (\<exists>k < length is. admitted_ingress (is ! k) \<and>
      (\<forall>j < k. \<not> admitted_ingress (is ! j)) \<and> host = ingress_Host (is ! k))"
    unfolding find_Some_iff by blast
  finally show ?thesis .
qed

text \<open>
  Claim C10. \<^verbatim>\<open>admittedRoute\<close> returns \<open>(host, True)\<close> exactly when some ingress of the
  route's status has a non-empty host and a condition of type \<^verbatim>\<open>Admitted\<close> with status
  \<^verbatim>\<open>True\<close>, and then \<open>host\<close> is the host of the first such ingress in status order;
  otherwise it returns the empty string and \<open>False\<close>.
\<close>

theorem admittedRoute_first_admitted:
  "(snd (admittedRoute route) \<longleftrightarrow> (\<exists>i \<in> set (route_Status_Ingress route). admitted_ingress i))
   \<and> (\<forall>host. admittedRoute route = (host, True) \<longleftrightarrow>
        (\<exists>k < length (route_Status_Ingress route).
           admitted_ingress (route_Status_Ingress route ! k) \<and>
           (\<forall>j < k. \<not> admitted_ingress (route_Status_Ingress route ! j)) \<and>
           host = ingress_Host (route_Status_Ingress route ! k)))
   \<and> ((\<forall>i \<in> set (route_Status_Ingress route). \<not> admitted_ingress i) \<longrightarrow>
        admittedRoute route = ('''', False))"
  unfolding admittedRoute_def
  using admittedIngresses_snd admittedIngresses_True_iff admittedIngresses_None
  by (intro conjI allI impI) blast+

theorem admittedRoute_first_admitted_witness:
  "admittedRoute \<lparr>route_Status_Ingress =
      [\<lparr>ingress_Host = '''', ingress_Conditions = [\<lparr>cond_Type = ''Admitted'', cond_Status = ''True''\<rparr>]\<rparr>,
       \<lparr>ingress_Host = ''b.example'', ingress_Conditions =
          [\<lparr>cond_Type = ''Other'', cond_Status = ''True''\<rparr>,
           \<lparr>cond_Type = ''Admitted'', cond_Status = ''True''\<rparr>]\<rparr>,
       \<lparr>ingress_Host = ''c.example'', ingress_Conditions = [\<lparr>cond_Type = ''Admitted'', cond_Status = ''True''\<rparr>]\<rparr>]\<rparr>
     = (''b.example'', True)
   \<and> admittedRoute \<lparr>route_Status_Ingress =
      [\<lparr>ingress_Host = '''', ingress_Conditions = [\<lparr>cond_Type = ''Admitted'', cond_Status = ''True''\<rparr>]\<rparr>,
       \<lparr>ingress_Host = ''a.example'', ingress_Conditions = [\<lparr>cond_Type = ''Admitted'', cond_Status = ''False''\<rparr>]\<rparr>]\<rparr>
     = ('''', False)"
proof -
  let ?is1 = "[\<lparr>ingress_Host = '''', ingress_Conditions = [\<lparr>cond_Type = ''Admitted'', cond_Status = ''True''\<rparr>]\<rparr>,
       \<lparr>ingress_Host = ''b.example'', ingress_Conditions =
          [\<lparr>cond_Type = ''Other'', cond_Status = ''True''\<rparr>,
           \<lparr>cond_Type = ''Admitted'', cond_Status = ''True''\<rparr>]\<rparr>,
       \<lparr>ingress_Host = ''c.example'', ingress_Conditions = [\<lparr>cond_Type = ''Admitted'', cond_Status = ''True''\<rparr>]\<rparr>]"
  let ?is2 = "[\<lparr>ingress_Host = '''', ingress_Conditions = [\<lparr>cond_Type = ''Admitted'', cond_Status = ''True''\<rparr>]\<rparr>,
       \<lparr>ingress_Host = ''a.example'', ingress_Conditions = [\<lparr>cond_Type = ''Admitted'', cond_Status = ''False''\<rparr>]\<rparr>]"
  have "1 < length ?is1 \<and> admitted_ingress (?is1 ! 1) \<and>
      (\<forall>j < 1. \<not> admitted_ingress (?is1 ! j)) \<and> ''b.example'' = ingress_Host (?is1 ! 1)"
    by (simp add: admitted_ingress_def RouteAdmitted_def ConditionTrue_def)
  then have a: "\<exists>k < length ?is1. admitted_ingress (?is1 ! k) \<and>
      (\<forall>j < k. \<not> admitted_ingress (?is1 ! j)) \<and> ''b.example'' = ingress_Host (?is1 ! k)"
    by (rule exI [of _ 1])
  have b: "\<forall>i \<in> set ?is2. \<not> admitted_ingress i"
    by (simp add: admitted_ingress_def RouteAdmitted_def ConditionTrue_def)
  have "admittedRoute \<lparr>route_Status_Ingress = ?is1\<rparr> = (''b.example'', True)"
    using a admittedRoute_first_admitted [of "\<lparr>route_Status_Ingress = ?is1\<rparr>"] by simp
  moreover have "admittedRoute \<lparr>route_Status_Ingress = ?is2\<rparr> = ('''', False)"
    using b admittedRoute_first_admitted [of "\<lparr>route_Status_Ingress = ?is2\<rparr>"] by simp
  ultimately show ?thesis by simp
qed

subsection \<open>The idle watchdog\<close>













subsection \<open>The namespace name\<close>

lemma Replace_hit:
  "old \<noteq> [] \<Longrightarrow> strings_Replace_all (old @ s) old new = new @ strings_Replace_all s old new"
  by (cases old) simp_all

lemma Replace_hit_Cons:
  "old \<noteq> [] \<Longrightarrow> take (length old) (c # s) = old \<Longrightarrow>
   strings_Replace_all (c # s) old new = new @ strings_Replace_all (drop (length old) (c # s)) old new"
  by simp

lemma Replace_miss_Cons:
  "old \<noteq> [] \<Longrightarrow> take (length old) (c # s) \<noteq> old \<Longrightarrow>
   strings_Replace_all (c # s) old new = c # strings_Replace_all s old new"
  by simp

lemma Replace_append_gen:
  assumes "old \<noteq> []"
    and "\<And>c s. take (length old) (c # s) \<noteq> old \<Longrightarrow> take (length old) (c # s @ old @ post) \<noteq> old"
  shows "strings_Replace_all (pre @ old @ post) old new =
     strings_Replace_all pre old new @ new @ strings_Replace_all post old new"
  using assms
proof (induction pre old new rule: strings_Replace_all.induct)
  case (1 old new)
  then show ?case by (simp add: Replace_hit del: strings_Replace_all.simps(2))
next
  case (2 c s old new)
  note old = \<open>old \<noteq> []\<close>
  show ?case
  proof (cases "take (length old) (c # s) = old")
    case True
    then have "length (take (length old) (c # s)) = length old"
      by (rule arg_cong)
    then have len: "length old \<le> length (c # s)"
      unfolding length_take by linarith
    have t: "take (length old) (c # (s @ old @ post)) = old"
      using True len by (metis append_Cons take_append diff_is_0_eq take_0 append_Nil2)
    have d: "drop (length old) (c # (s @ old @ post)) = drop (length old) (c # s) @ old @ post"
      using len by (metis append_Cons drop_append diff_is_0_eq drop_0)
    have "strings_Replace_all ((c # s) @ old @ post) old new =
        new @ strings_Replace_all (drop (length old) (c # s) @ old @ post) old new"
      using Replace_hit_Cons [OF old t] d by simp
    also have "strings_Replace_all (drop (length old) (c # s) @ old @ post) old new =
        strings_Replace_all (drop (length old) (c # s)) old new @ new @
        strings_Replace_all post old new"
      using 2(2) [OF old True old] 2(5) by blast
    finally show ?thesis
      using Replace_hit_Cons [OF old True] by simp
  next
    case False
    have "take (length old) (c # s @ old @ post) \<noteq> old"
      using 2(5) False by blast
    then have "strings_Replace_all ((c # s) @ old @ post) old new =
        c # strings_Replace_all (s @ old @ post) old new"
      using Replace_miss_Cons [OF old] by simp
    also have "strings_Replace_all (s @ old @ post) old new =
        strings_Replace_all s old new @ new @ strings_Replace_all post old new"
      using 2(3) [OF old False old] 2(5) by blast
    finally show ?thesis
      using Replace_miss_Cons [OF old False] by simp
  qed
qed

lemma id_no_overlap:
  assumes "take (length ''{id}'') (c # s) \<noteq> ''{id}''"
  shows "take (length ''{id}'') (c # s @ ''{id}'' @ post) \<noteq> ''{id}''"
proof (cases s)
  case Nil
  then show ?thesis by simp
next
  case (Cons a s1)
  show ?thesis
  proof (cases s1)
    case Nil
    with Cons show ?thesis by simp
  next
    case (Cons b s2)
    show ?thesis
    proof (cases s2)
      case Nil
      with \<open>s = a # s1\<close> \<open>s1 = b # s2\<close> show ?thesis by simp
    next
      case (Cons d s3)
      with \<open>s = a # s1\<close> \<open>s1 = b # s2\<close> assms show ?thesis by simp
    qed
  qed
qed

lemma Replace_id_append:
  "strings_Replace_all (pre @ ''{id}'' @ post) ''{id}'' new =
     strings_Replace_all pre ''{id}'' new @ new @ strings_Replace_all post ''{id}'' new"
  by (rule Replace_append_gen) (simp, rule id_no_overlap)

lemma Replace_absent:
  assumes "old \<noteq> []" "\<nexists>pre post. s = pre @ old @ post"
  shows "strings_Replace_all s old new = s"
  using assms
proof (induction s)
  case Nil
  then show ?case by simp
next
  case (Cons c s)
  have "take (length old) (c # s) \<noteq> old"
  proof
    assume "take (length old) (c # s) = old"
    then have "c # s = [] @ old @ drop (length old) (c # s)"
      by (metis append_Nil append_take_drop_id)
    with Cons.prems(2) show False by blast
  qed
  moreover have "\<nexists>pre post. s = pre @ old @ post"
  proof
    assume "\<exists>pre post. s = pre @ old @ post"
    then obtain pre post where "s = pre @ old @ post" by blast
    then have "c # s = (c # pre) @ old @ post" by simp
    with Cons.prems(2) show False by blast
  qed
  ultimately show ?case
    using Cons.IH Cons.prems(1) Replace_miss_Cons by simp
qed

lemma Replace_default: "strings_Replace_all ''ci-op-{id}'' ''{id}'' h = ''ci-op-'' @ h"
  by simp

lemma Complete_namespace:
  "ResolveSpecFromEnv w = Inr js \<Longrightarrow>
   namespace (snd (Complete w opt)) =
     strings_Replace_all (if namespace opt = [] then ''ci-op-{id}'' else namespace opt)
       ''{id}'' (Hash js)"
  by (simp add: Complete_def Let_def del: strings_Replace_all.simps split: sum.splits)

lemma Complete_jobSpec:
  "ResolveSpecFromEnv w = Inr js \<Longrightarrow>
   jobSpec (snd (Complete w opt)) =
     js\<lparr>js_namespace := namespace (snd (Complete w opt)), js_baseNamespace := baseNamespace opt\<rparr>"
  by (simp add: Complete_def Let_def SetNamespace_def SetBaseNamespace_def
      del: strings_Replace_all.simps split: sum.splits)

text \<open>
  Claim C7. When the job specification is resolved, the namespace that \<^verbatim>\<open>Complete\<close>
  leaves in the options and attaches to the job specification is the namespace option,
  or \<^verbatim>\<open>ci-op-{id}\<close> when the option is empty, with \<^verbatim>\<open>{id}\<close> replaced by the hash of the
  job specification: with no namespace option it is \<^verbatim>\<open>ci-op-\<close> followed by the hash;
  every occurrence of \<^verbatim>\<open>{id}\<close> in the option gives way to the hash; and an option
  without \<^verbatim>\<open>{id}\<close> is kept as it is.
\<close>

theorem Complete_namespace_from_hash:
  assumes "ResolveSpecFromEnv w = Inr js"
  shows "namespace (snd (Complete w opt)) =
           strings_Replace_all (if namespace opt = [] then ''ci-op-{id}'' else namespace opt)
             ''{id}'' (Hash js)
       \<and> Namespace (jobSpec (snd (Complete w opt))) = namespace (snd (Complete w opt))
       \<and> (namespace opt = [] \<longrightarrow> namespace (snd (Complete w opt)) = ''ci-op-'' @ Hash js)
       \<and> (\<forall>pre post. namespace opt = pre @ ''{id}'' @ post \<longrightarrow>
            namespace (snd (Complete w opt)) =
              strings_Replace_all pre ''{id}'' (Hash js) @ Hash js @
              strings_Replace_all post ''{id}'' (Hash js))
       \<and> (namespace opt \<noteq> [] \<and> (\<nexists>pre post. namespace opt = pre @ ''{id}'' @ post) \<longrightarrow>
            namespace (snd (Complete w opt)) = namespace opt)"
proof -
  note ns = Complete_namespace [OF assms, of opt]
  have a: "Namespace (jobSpec (snd (Complete w opt))) = namespace (snd (Complete w opt))"
    by (simp add: Complete_jobSpec [OF assms] Namespace_def)
  have b: "namespace (snd (Complete w opt)) = ''ci-op-'' @ Hash js" if "namespace opt = []"
    using ns that Replace_default by simp
  have c: "namespace (snd (Complete w opt)) =
      strings_Replace_all pre ''{id}'' (Hash js) @ Hash js @
      strings_Replace_all post ''{id}'' (Hash js)"
    if "namespace opt = pre @ ''{id}'' @ post" for pre post
    using ns that Replace_id_append [of pre post "Hash js"]
    by (simp del: strings_Replace_all.simps)
  have d: "namespace (snd (Complete w opt)) = namespace opt"
    if "namespace opt \<noteq> [] \<and> (\<nexists>pre post. namespace opt = pre @ ''{id}'' @ post)"
    using ns that Replace_absent [of "''{id}''" "namespace opt" "Hash js"]
    by (simp del: strings_Replace_all.simps)
  from ns a b c d show ?thesis
    by blast
qed

theorem Complete_namespace_from_hash_witness:
  "namespace (snd (Complete example_world example_options)) = ''ci-op-5b2f7ad1''
   \<and> Namespace (jobSpec (snd (Complete example_world example_options))) = ''ci-op-5b2f7ad1''
   \<and> namespace (snd (Complete example_world (example_options\<lparr>namespace := ''a-{id}-b-{id}''\<rparr>)))
       = ''a-5b2f7ad1-b-5b2f7ad1''"
proof -
  have r: "ResolveSpecFromEnv example_world = Inr example_jobSpec"
    by (simp add: example_world_def)
  have h: "Hash example_jobSpec = ''5b2f7ad1''"
    by (simp add: Hash_def example_jobSpec_def)
  have e: "namespace example_options = []"
    by (simp add: example_options_def)
  from Complete_namespace_from_hash [OF r, of example_options] e h
  have 1: "namespace (snd (Complete example_world example_options)) = ''ci-op-5b2f7ad1''"
    and 2: "Namespace (jobSpec (snd (Complete example_world example_options))) = ''ci-op-5b2f7ad1''"
    by simp_all
  have "namespace (example_options\<lparr>namespace := ''a-{id}-b-{id}''\<rparr>) = ''a-'' @ ''{id}'' @ ''-b-{id}''"
    by simp
  with Complete_namespace_from_hash [OF r, of "example_options\<lparr>namespace := ''a-{id}-b-{id}''\<rparr>"]
  have "namespace (snd (Complete example_world (example_options\<lparr>namespace := ''a-{id}-b-{id}''\<rparr>)))
      = strings_Replace_all ''a-'' ''{id}'' (Hash example_jobSpec) @ Hash example_jobSpec @
        strings_Replace_all ''-b-{id}'' ''{id}'' (Hash example_jobSpec)"
    by blast
  then have 3: "namespace (snd (Complete example_world (example_options\<lparr>namespace := ''a-{id}-b-{id}''\<rparr>)))
      = ''a-5b2f7ad1-b-5b2f7ad1''"
    by (simp add: h)
  from 1 2 3 show ?thesis by simp
qed

subsection \<open>The loop that creates the namespace\<close>

lemma namespaceLoop_Break:
  "namespaceAttempt w opt i = (Break, tr) \<Longrightarrow> namespaceLoop w opt i = Some (None, tr)"
  by (subst namespaceLoop.simps) simp

lemma namespaceLoop_ReturnErr:
  "namespaceAttempt w opt i = (ReturnErr err, tr) \<Longrightarrow> namespaceLoop w opt i = Some (Some err, tr)"
  by (subst namespaceLoop.simps) simp

lemma namespaceLoop_Continue:
  "namespaceAttempt w opt i = (Continue, tr) \<Longrightarrow>
   namespaceLoop w opt i =
     Option.bind (namespaceLoop w opt (Suc i)) (\<lambda>(r, tr'). Some (r, tr @ tr'))"
  by (subst namespaceLoop.simps) simp

lemma namespaceLoop_unroll:
  "\<forall>j < n. fst (namespaceAttempt w opt (i + j)) = Continue \<Longrightarrow>
   namespaceLoop w opt i =
     Option.bind (namespaceLoop w opt (i + n))
       (\<lambda>(r, tr'). Some (r, concat (map (\<lambda>j. snd (namespaceAttempt w opt j)) [i..<i + n]) @ tr'))"
proof (induction n arbitrary: i)
  case 0
  show ?case by (cases "namespaceLoop w opt i") auto
next
  case (Suc n)
  from Suc.prems have "fst (namespaceAttempt w opt (i + 0)) = Continue"
    by blast
  then have a: "namespaceAttempt w opt i = (Continue, snd (namespaceAttempt w opt i))"
    by (cases "namespaceAttempt w opt i") simp
  have "\<forall>j < n. fst (namespaceAttempt w opt (Suc i + j)) = Continue"
    using Suc.prems by (metis Suc_less_eq add_Suc_right add_Suc)
  from Suc.IH [OF this] have b: "namespaceLoop w opt (Suc i) =
     Option.bind (namespaceLoop w opt (Suc i + n))
       (\<lambda>(r, tr'). Some (r, concat (map (\<lambda>j. snd (namespaceAttempt w opt j)) [Suc i..<Suc i + n]) @ tr'))" .
  have c: "[i..<i + Suc n] = i # [Suc i..<Suc i + n]"
    by (simp add: upt_rec)
  show ?case
    unfolding namespaceLoop_Continue [OF a] b c
    by (cases "namespaceLoop w opt (Suc i + n)") auto
qed



lemma namespaceLoop_exit:
  assumes "\<forall>j < n. fst (namespaceAttempt w opt j) = Continue"
  shows "namespaceAttempt w opt n = (Break, tr) \<Longrightarrow>
           namespaceLoop w opt 0 =
             Some (None, concat (map (\<lambda>j. snd (namespaceAttempt w opt j)) [0..<n]) @ tr)"
    and "namespaceAttempt w opt n = (ReturnErr err, tr) \<Longrightarrow>
           namespaceLoop w opt 0 =
             Some (Some err, concat (map (\<lambda>j. snd (namespaceAttempt w opt j)) [0..<n]) @ tr)"
proof -
  from assms have "\<forall>j < n. fst (namespaceAttempt w opt (0 + j)) = Continue"
    by simp
  note u = namespaceLoop_unroll [OF this]
  show "namespaceAttempt w opt n = (Break, tr) \<Longrightarrow>
           namespaceLoop w opt 0 =
             Some (None, concat (map (\<lambda>j. snd (namespaceAttempt w opt j)) [0..<n]) @ tr)"
    by (simp add: u namespaceLoop_Break)
  show "namespaceAttempt w opt n = (ReturnErr err, tr) \<Longrightarrow>
           namespaceLoop w opt 0 =
             Some (Some err, concat (map (\<lambda>j. snd (namespaceAttempt w opt j)) [0..<n]) @ tr)"
    by (simp add: u namespaceLoop_ReturnErr)
qed

lemma namespaceAttempt_events:
  "e \<in> set (snd (namespaceAttempt w opt i)) \<Longrightarrow>
     \<not> step_event e \<and> \<not> owner_event e \<and> (\<forall>d. e = Call_Sleep d \<longrightarrow> d = 3 * Second)"
  by (auto simp: namespaceAttempt_def phaseCheck_def split: sum.splits if_splits)

lemma Run_namespace_error:
  "\<not> dry opt \<Longrightarrow> versioned_NewForConfig w = None \<Longrightarrow>
   namespaceLoop w opt 0 = Some (Some err, tr) \<Longrightarrow>
   Run w opt =
     Some (Return (Some err),
           Log ''Creating namespace %s'' [namespace opt] # tr @ [Log ''Ran for %s'' []],
           jobSpec opt)"
  by (simp add: Run_def provision_def)


text \<open>
  Claim C1. In pass \<open>i\<close> of the loop: when the creation answers ``already exists'' the
  namespace is fetched; a fetched namespace that is not \<^verbatim>\<open>Terminating\<close> ends the loop
  with success, one that is \<^verbatim>\<open>Terminating\<close> makes the loop sleep 3 seconds and start
  the next pass; a fetch that answers ``not found'' starts the next pass at once; any
  other fetch error is returned. The loop runs its passes until one does not continue:
  if that pass ends with success so does the loop, and if it returns an error then
  \<^verbatim>\<open>Run\<close> returns that error, having made no call that builds or runs a step.
\<close>

theorem namespace_provisioning_idempotent:
  "(\<forall>err project.
      ProjectRequests_Create w i = Inl err \<and> IsAlreadyExists err \<and> Projects_Get w i = Inr project \<longrightarrow>
      namespaceAttempt w opt i =
        (if project_Status_Phase project = NamespaceTerminating
         then (Continue,
               [Call_ProjectRequests_Create (namespace opt), Call_Projects_Get (namespace opt),
                Log ''Waiting for namespace to finish terminating before creating another'' [],
                Call_Sleep (3 * Second)])
         else (Break,
               [Call_ProjectRequests_Create (namespace opt), Call_Projects_Get (namespace opt)])))
   \<and> (\<forall>err err'.
      ProjectRequests_Create w i = Inl err \<and> IsAlreadyExists err \<and> Projects_Get w i = Inl err' \<longrightarrow>
      namespaceAttempt w opt i =
        (if IsNotFound err'
         then (Continue,
               [Call_ProjectRequests_Create (namespace opt), Call_Projects_Get (namespace opt)])
         else (ReturnErr (Errorf (''cannot retrieve test namespace: '' @ Error err')),
               [Call_ProjectRequests_Create (namespace opt), Call_Projects_Get (namespace opt)])))
   \<and> (\<forall>n tr.
      (\<forall>j < n. fst (namespaceAttempt w opt j) = Continue) \<and>
      namespaceAttempt w opt n = (Break, tr) \<longrightarrow>
      namespaceLoop w opt 0 =
        Some (None, concat (map (\<lambda>j. snd (namespaceAttempt w opt j)) [0..<n]) @ tr))
   \<and> (\<forall>n err tr.
      (\<forall>j < n. fst (namespaceAttempt w opt j) = Continue) \<and>
      namespaceAttempt w opt n = (ReturnErr err, tr) \<and>
      \<not> dry opt \<and> versioned_NewForConfig w = None \<longrightarrow>
      (\<exists>calls.
         Run w opt = Some (Return (Some err), calls, jobSpec opt) \<and>
         (\<forall>e \<in> set calls. \<not> step_event e)))"
proof -
  have a: "namespaceAttempt w opt i =
        (if project_Status_Phase project = NamespaceTerminating
         then (Continue,
               [Call_ProjectRequests_Create (namespace opt), Call_Projects_Get (namespace opt),
                Log ''Waiting for namespace to finish terminating before creating another'' [],
                Call_Sleep (3 * Second)])
         else (Break,
               [Call_ProjectRequests_Create (namespace opt), Call_Projects_Get (namespace opt)]))"
    if "ProjectRequests_Create w i = Inl err \<and> IsAlreadyExists err \<and> Projects_Get w i = Inr project"
    for err project
    using that by (simp add: namespaceAttempt_def phaseCheck_def)
  have b: "namespaceAttempt w opt i =
        (if IsNotFound err'
         then (Continue,
               [Call_ProjectRequests_Create (namespace opt), Call_Projects_Get (namespace opt)])
         else (ReturnErr (Errorf (''cannot retrieve test namespace: '' @ Error err')),
               [Call_ProjectRequests_Create (namespace opt), Call_Projects_Get (namespace opt)]))"
    if "ProjectRequests_Create w i = Inl err \<and> IsAlreadyExists err \<and> Projects_Get w i = Inl err'"
    for err err'
    using that by (simp add: namespaceAttempt_def)
  have c: "namespaceLoop w opt 0 =
        Some (None, concat (map (\<lambda>j. snd (namespaceAttempt w opt j)) [0..<n]) @ tr)"
    if "(\<forall>j < n. fst (namespaceAttempt w opt j) = Continue) \<and>
      namespaceAttempt w opt n = (Break, tr)" for n tr
    using that namespaceLoop_exit(1) by blast
  have d: "\<exists>calls. Run w opt = Some (Return (Some err), calls, jobSpec opt) \<and>
         (\<forall>e \<in> set calls. \<not> step_event e)"
    if h: "(\<forall>j < n. fst (namespaceAttempt w opt j) = Continue) \<and>
      namespaceAttempt w opt n = (ReturnErr err, tr) \<and>
      \<not> dry opt \<and> versioned_NewForConfig w = None" for n err tr
  proof -
    let ?tr = "concat (map (\<lambda>j. snd (namespaceAttempt w opt j)) [0..<n]) @ tr"
    let ?calls = "Log ''Creating namespace %s'' [namespace opt] # ?tr @ [Log ''Ran for %s'' []]"
    have l: "namespaceLoop w opt 0 = Some (Some err, ?tr)"
      using h namespaceLoop_exit(2) by blast
    from h have nd: "\<not> dry opt" and v: "versioned_NewForConfig w = None"
      by simp_all
    have r: "Run w opt = Some (Return (Some err), ?calls, jobSpec opt)"
      by (rule Run_namespace_error [OF nd v l])
    have "tr = snd (namespaceAttempt w opt n)"
      using h by simp
    then have "\<forall>e \<in> set ?tr. \<not> step_event e"
      using namespaceAttempt_events by auto
    then have "\<forall>e \<in> set ?calls. \<not> step_event e"
      by simp
    with r show ?thesis
      by (intro exI [of _ ?calls] conjI)
  qed
  from a b c d show ?thesis
    by blast
qed

theorem namespace_provisioning_idempotent_witness:
  "namespaceLoop (terminating_world 2) run_options 0 =
     Some (None,
       [Call_ProjectRequests_Create ''ci-op-5b2f7ad1'', Call_Projects_Get ''ci-op-5b2f7ad1'',
        Log ''Waiting for namespace to finish terminating before creating another'' [],
        Call_Sleep 3000000000,
        Call_ProjectRequests_Create ''ci-op-5b2f7ad1'', Call_Projects_Get ''ci-op-5b2f7ad1'',
        Log ''Waiting for namespace to finish terminating before creating another'' [],
        Call_Sleep 3000000000,
        Call_ProjectRequests_Create ''ci-op-5b2f7ad1'', Call_Projects_Get ''ci-op-5b2f7ad1''])"
proof -
  let ?w = "terminating_world 2"
  have att: "namespaceAttempt ?w run_options j =
      (if j < 2
       then (Continue,
             [Call_ProjectRequests_Create ''ci-op-5b2f7ad1'', Call_Projects_Get ''ci-op-5b2f7ad1'',
              Log ''Waiting for namespace to finish terminating before creating another'' [],
              Call_Sleep 3000000000])
       else (Break,
             [Call_ProjectRequests_Create ''ci-op-5b2f7ad1'', Call_Projects_Get ''ci-op-5b2f7ad1'']))"
    for j
    by (simp add: namespaceAttempt_def phaseCheck_def terminating_world_def run_options_def
        NamespaceTerminating_def Second_def)
  have "(\<forall>j < 2. fst (namespaceAttempt ?w run_options j) = Continue) \<and>
      namespaceAttempt ?w run_options 2 =
        (Break, [Call_ProjectRequests_Create ''ci-op-5b2f7ad1'', Call_Projects_Get ''ci-op-5b2f7ad1''])"
    by (simp add: att)
  with namespace_provisioning_idempotent [of ?w 0 run_options]
  have "namespaceLoop ?w run_options 0 =
      Some (None, concat (map (\<lambda>j. snd (namespaceAttempt ?w run_options j)) [0..<2]) @
        [Call_ProjectRequests_Create ''ci-op-5b2f7ad1'', Call_Projects_Get ''ci-op-5b2f7ad1''])"
    by blast
  moreover have "[0..<2] = [0, Suc 0]"
    by (simp add: upt_rec)
  ultimately show ?thesis
    by (simp add: att)
qed




subsection \<open>The image stream and the owner reference\<close>









subsection \<open>Dry runs\<close>

lemma Run_dry:
  "dry opt \<Longrightarrow>
   Run w opt =
     Some (fst (buildAndRun w opt None),
           snd (buildAndRun w opt None) @ [Log ''Ran for %s'' []], jobSpec opt)"
  by (simp add: Run_def split: prod.splits)

lemma resolveParameters_dry:
  "dry opt \<Longrightarrow> buildConfig opt = Some cfg \<Longrightarrow>
   resolveParameters w opt path is =
     (Inr (dry_params w opt cfg is), [Log ''Writing parameters to %s'' [path]])"
  by (simp add: resolveParameters_def dry_params_def Let_def split: option.splits)

lemma writeParameters_dry:
  "dry opt \<Longrightarrow> buildConfig opt = Some cfg \<Longrightarrow>
   writeParameters w opt path is =
     (Return None,
      [Log ''Writing parameters to %s'' [path],
       Log (newline @ ''%s'') [strings_Join (dry_params w opt cfg is) newline]])"
  by (simp add: writeParameters_def resolveParameters_dry emitParameters_def)

lemma writeParameters_dry_nil:
  "dry opt \<Longrightarrow> buildConfig opt = None \<Longrightarrow>
   writeParameters w opt path is = (Panic, [Log ''Writing parameters to %s'' [path]])"
  by (simp add: writeParameters_def resolveParameters_def)

lemma writeParameters_dry_events:
  "dry opt \<Longrightarrow> \<forall>e \<in> set (snd (writeParameters w opt path is)). local_event e"
  by (cases "buildConfig opt") (simp_all add: writeParameters_dry writeParameters_dry_nil)

lemma buildAndRun_dry_events:
  assumes "dry opt"
  shows "\<forall>e \<in> set (snd (buildAndRun w opt is)). local_event e"
proof -
  note wp = writeParameters_dry_events [OF assms, of w "writeParams opt" "is"]
  show ?thesis
    using assms wp
    by (auto simp: buildAndRun_def Let_def split: sum.splits option.splits prod.splits outcome.splits)
qed

lemma local_event_no_cluster:
  "local_event e \<Longrightarrow>
     \<not> cluster_call e \<and> \<not> cluster_create e \<and> \<not> file_write e \<and> \<not> owner_event e \<and>
     (\<forall>d. e \<noteq> Call_Sleep d) \<and> (\<forall>d. e \<noteq> Call_PollTick d)"
  by (cases e) simp_all

text \<open>
  Claim C3. With the dry-run flag set \<^verbatim>\<open>Run\<close> returns, leaves the job specification as
  it was, and makes no call but log lines and the calls of package \<^verbatim>\<open>steps\<close>, to which it
  passes the flag: no call to the cluster (no namespace, no cleanup pod, no image stream,
  no route), no sleep, no poll, no owner reference and no file. \<^verbatim>\<open>writeParameters\<close> then
  logs the parameters, with \<^verbatim>\<open>RPM_REPO=""\<close> when the configuration has RPM build
  commands, and returns.
\<close>

theorem dry_run_makes_no_cluster_call:
  assumes "dry opt"
  shows "(\<exists>r tr. Run w opt = Some (r, tr, jobSpec opt) \<and>
            (\<forall>e \<in> set tr.
               local_event e \<and> \<not> cluster_call e \<and> \<not> cluster_create e \<and> \<not> file_write e \<and>
               \<not> owner_event e \<and> (\<forall>d. e \<noteq> Call_Sleep d) \<and> (\<forall>d. e \<noteq> Call_PollTick d)))
       \<and> (\<forall>cfg path is. buildConfig opt = Some cfg \<longrightarrow>
            writeParameters w opt path is =
              (Return None,
               [Log ''Writing parameters to %s'' [path],
                Log (newline @ ''%s'') [strings_Join (dry_params w opt cfg is) newline]]))
       \<and> (\<forall>cfg is. cfg_RpmBuildCommands cfg \<noteq> [] \<longrightarrow>
            last (dry_params w opt cfg is) = ''RPM_REPO='' @ dquote @ dquote)"
proof -
  let ?tr = "snd (buildAndRun w opt None) @ [Log ''Ran for %s'' []]"
  have "\<forall>e \<in> set ?tr. local_event e"
    using buildAndRun_dry_events [OF assms, of w None] by simp
  then have "\<forall>e \<in> set ?tr.
      local_event e \<and> \<not> cluster_call e \<and> \<not> cluster_create e \<and> \<not> file_write e \<and>
      \<not> owner_event e \<and> (\<forall>d. e \<noteq> Call_Sleep d) \<and> (\<forall>d. e \<noteq> Call_PollTick d)"
    using local_event_no_cluster by blast
  with Run_dry [OF assms, of w]
  have a: "\<exists>r tr. Run w opt = Some (r, tr, jobSpec opt) \<and>
            (\<forall>e \<in> set tr.
               local_event e \<and> \<not> cluster_call e \<and> \<not> cluster_create e \<and> \<not> file_write e \<and>
               \<not> owner_event e \<and> (\<forall>d. e \<noteq> Call_Sleep d) \<and> (\<forall>d. e \<noteq> Call_PollTick d))"
    by blast
  have b: "writeParameters w opt path is =
              (Return None,
               [Log ''Writing parameters to %s'' [path],
                Log (newline @ ''%s'') [strings_Join (dry_params w opt cfg is) newline]])"
    if "buildConfig opt = Some cfg" for cfg path "is"
    by (rule writeParameters_dry [OF assms that])
  have c: "last (dry_params w opt cfg is) = ''RPM_REPO='' @ dquote @ dquote"
    if "cfg_RpmBuildCommands cfg \<noteq> []" for cfg "is"
    using that by (simp add: dry_params_def)
  from a b c show ?thesis
    by blast
qed

theorem dry_run_makes_no_cluster_call_witness:
  "writeParameters example_world (run_options\<lparr>dry := True\<rparr>) ''/tmp/params'' None =
     (Return None,
      [Log ''Writing parameters to %s'' [''/tmp/params''],
       Log (newline @ ''%s'')
         [''JOB_NAME='' @ dquote @ ''pull-ci-origin-unit'' @ dquote @ newline @
          ''NAMESPACE='' @ dquote @ ''ci-op-5b2f7ad1'' @ dquote @ newline @
          ''IMAGE_FORMAT='' @ squote @ ''REGISTRY/ci-op-5b2f7ad1/stable:${component}'' @ squote @
          newline @
          ''RPM_REPO='' @ dquote @ dquote]])"
proof -
  let ?opt = "run_options\<lparr>dry := True\<rparr>"
  have d: "dry ?opt"
    by simp
  have c: "buildConfig ?opt = Some example_config"
    by (simp add: run_options_def)
  from dry_run_makes_no_cluster_call [OF d, of example_world] c
  have "writeParameters example_world ?opt ''/tmp/params'' None =
      (Return None,
       [Log ''Writing parameters to %s'' [''/tmp/params''],
        Log (newline @ ''%s'') [strings_Join (dry_params example_world ?opt example_config None) newline]])"
    by blast
  moreover have "strings_Join (dry_params example_world ?opt example_config None) newline =
      ''JOB_NAME='' @ dquote @ ''pull-ci-origin-unit'' @ dquote @ newline @
      ''NAMESPACE='' @ dquote @ ''ci-op-5b2f7ad1'' @ dquote @ newline @
      ''IMAGE_FORMAT='' @ squote @ ''REGISTRY/ci-op-5b2f7ad1/stable:${component}'' @ squote @
      newline @
      ''RPM_REPO='' @ dquote @ dquote"
    by (simp add: dry_params_def run_options_def example_world_def example_config_def
        imageFormat_def Let_def squote_def dquote_def backslash_def newline_def)
  ultimately show ?thesis
    by simp
qed

subsection \<open>The poll for the route of the RPM repository\<close>



















subsection \<open>The parameter file\<close>












subsection \<open>The mutations of the job specification\<close>


















end
